theory Spec2Isabelle
  imports Main "HOL-Library.Word" "HOL-Library.Monad_Syntax"
begin

section \<open>JavaScript values\<close>

text \<open>
  A JavaScript string is a sequence of UTF-16 code units: \<open>length\<close> and
  \<open>substring\<close> count code units, so a string is a list of 16-bit words.
  \<open>js\<close> embeds an ASCII literal.
\<close>

type_synonym jstring = "16 word list"

definition js :: "string \<Rightarrow> jstring" where
  "js s = map of_char s"

text \<open>
  The values \<open>request.json()\<close> can resolve to, and \<open>undefined\<close> for a property
  that is not there. The handler reads a number only through a template literal, so a
  number is carried as the text \<open>Number::toString\<close> gives for it. An object is the list
  of its own properties; \<open>JSON.parse\<close> leaves each key once.
\<close>

datatype jsval =
    JUndefined
  | JNull
  | JBool bool
  | JNum jstring
  | JStr jstring
  | JArr "jsval list"
  | JObj "(jstring \<times> jsval) list"

fun join :: "jstring \<Rightarrow> jstring list \<Rightarrow> jstring" where
  "join sep [] = []"
| "join sep [x] = x"
| "join sep (x # y # ys) = x @ sep @ join sep (y # ys)"

text \<open>
  \<open>ToString\<close>, as a template literal \<open>`${v}`\<close> and \<open>String(v)\<close> apply it;
  \<open>None\<close> is the \<open>TypeError\<close> of a value that cannot be converted.
  An object is converted by its \<open>toString\<close> and then its \<open>valueOf\<close>: without an
  own \<open>toString\<close> key that is \<open>Object.prototype.toString\<close>; an own \<open>toString\<close> key
  holds a value that is not callable, and then neither the own nor the inherited
  \<open>valueOf\<close> gives a primitive, so the conversion throws.
  \<open>Array.prototype.toString\<close> joins the elements with a comma, \<open>null\<close> and
  \<open>undefined\<close> elements giving the empty string and every other element being
  converted in turn.
\<close>

fun ToString :: "jsval \<Rightarrow> jstring option" where
  "ToString JUndefined = Some (js ''undefined'')"
| "ToString JNull = Some (js ''null'')"
| "ToString (JBool b) = Some (if b then js ''true'' else js ''false'')"
| "ToString (JNum text) = Some text"
| "ToString (JStr s) = Some s"
| "ToString (JArr xs) =
     map_option (join (js '',''))
       (those (map (\<lambda>x. if x = JUndefined \<or> x = JNull then Some [] else ToString x) xs))"
| "ToString (JObj kvs) =
     (if map_of kvs (js ''toString'') = None then Some (js ''[object Object]'') else None)"

text \<open>
  A thrown value: an \<open>Error\<close> object with its message, or any other value.
  \<open>error_text\<close> is \<open>e instanceof Error ? e.message : String(e)\<close>, which throws
  (\<open>None\<close>) where \<open>String\<close> does.
\<close>

datatype thrown = ErrorObj jstring | NonError jsval

fun error_text :: "thrown \<Rightarrow> jstring option" where
  "error_text (ErrorObj message) = Some message"
| "error_text (NonError v) = ToString v"

text \<open>\<open>a || b\<close> on values that are a string or \<open>undefined\<close> (\<open>None\<close>).\<close>

definition truthy :: "jstring option \<Rightarrow> bool" where
  "truthy a = (case a of None \<Rightarrow> False | Some s \<Rightarrow> s \<noteq> [])"

definition or_js :: "jstring option \<Rightarrow> jstring option \<Rightarrow> jstring option" where
  "or_js a b = (if truthy a then a else b)"

definition or_default :: "jstring option \<Rightarrow> jstring \<Rightarrow> jstring" where
  "or_default a d = (case a of None \<Rightarrow> d | Some s \<Rightarrow> if s \<noteq> [] then s else d)"

text \<open>
  \<open>String.prototype.trim\<close> removes leading and trailing white space and line
  terminators (ECMAScript \<open>WhiteSpace\<close> and \<open>LineTerminator\<close>).
\<close>

definition is_space :: "16 word \<Rightarrow> bool" where
  "is_space c \<longleftrightarrow>
     c \<in> {0x0009, 0x000A, 0x000B, 0x000C, 0x000D, 0x0020, 0x00A0, 0x1680,
          0x2028, 0x2029, 0x202F, 0x205F, 0x3000, 0xFEFF}
     \<or> (0x2000 \<le> c \<and> c \<le> 0x200A)"

definition trim :: "jstring \<Rightarrow> jstring" where
  "trim s = rev (dropWhile is_space (rev (dropWhile is_space s)))"

text \<open>Decimal text of a natural number, as \<open>`${xs.length}`\<close> prints it.\<close>

function nat_text :: "nat \<Rightarrow> jstring" where
  "nat_text n =
     (if n < 10 then [of_nat (48 + n)]
      else nat_text (n div 10) @ [of_nat (48 + n mod 10)])"
  by pat_completeness auto
termination
  by (relation "measure id") auto

section \<open>The rendered document\<close>

text \<open>
  The part of the DOM the page functions use: \<open>querySelector\<close>, \<open>textContent\<close>
  and \<open>getAttribute\<close> of an element; \<open>querySelectorAll\<close>, \<open>querySelector\<close> and
  \<open>documentElement.outerHTML\<close> of the document (\<open>None\<close> when the document has no
  root element). What each query answers is the browser's, taken as given.
\<close>

datatype element = Element
  (querySelector: "jstring \<Rightarrow> element option")
  (textContent: "jstring option")
  (getAttribute: "jstring \<Rightarrow> jstring option")

record document =
  doc_querySelectorAll :: "jstring \<Rightarrow> element list"
  doc_querySelector :: "jstring \<Rightarrow> element option"
  documentElement_outerHTML :: "jstring option"

record product =
  title :: jstring
  price :: jstring
  imageUrl :: jstring

text \<open>\<open>el.querySelector(sel)?.textContent?.trim() || ''\<close>\<close>

definition text_of :: "element option \<Rightarrow> jstring" where
  "text_of q =
     or_default (case q of None \<Rightarrow> None
                 | Some el \<Rightarrow> map_option trim (textContent el)) []"

text \<open>\<open>el.querySelector('img')?.getAttribute('src') || ''\<close>\<close>

definition src_of :: "element option \<Rightarrow> jstring" where
  "src_of q =
     or_default (case q of None \<Rightarrow> None
                 | Some el \<Rightarrow> getAttribute el (js ''src'')) []"

text \<open>The two callbacks given to \<open>map\<close> in the product function.\<close>

definition alternative_record :: "element \<Rightarrow> product" where
  "alternative_record el =
     \<lparr> title = text_of (querySelector el (js ''h2, .woocommerce-loop-product__title'')),
       price = text_of (querySelector el (js ''.price, .amount'')),
       imageUrl = src_of (querySelector el (js ''img'')) \<rparr>"

definition product_record :: "element \<Rightarrow> product" where
  "product_record el =
     \<lparr> title = text_of (querySelector el (js ''.woocommerce-loop-product__title'')),
       price = text_of (querySelector el (js ''.price'')),
       imageUrl = src_of (querySelector el (js ''img'')) \<rparr>"

definition primary_selector :: jstring where
  "primary_selector = js ''.product''"

definition alternative_selector :: jstring where
  "alternative_selector = js ''.products .product, ul.products li''"

text \<open>
  The function of the first \<open>page.evaluate\<close>. Beside the records it returns the
  selectors it passed to \<open>document.querySelectorAll\<close>, in call order.
\<close>

definition productInfo_run :: "document \<Rightarrow> product list \<times> jstring list" where
  "productInfo_run doc =
     (let products = doc_querySelectorAll doc primary_selector in
      if length products = 0 then
        (let alternativeProducts = doc_querySelectorAll doc alternative_selector in
         if length alternativeProducts > 0
         then (map alternative_record alternativeProducts,
               [primary_selector, alternative_selector])
         else (map product_record products,
               [primary_selector, alternative_selector]))
      else (map product_record products, [primary_selector]))"

definition productInfo_fn :: "document \<Rightarrow> product list" where
  "productInfo_fn doc = fst (productInfo_run doc)"

definition queried :: "document \<Rightarrow> jstring list" where
  "queried doc = snd (productInfo_run doc)"

text \<open>
  The record the second \<open>page.evaluate\<close> returns. Its \<open>title\<close> field is written
  \<open>page_title\<close> here, the name \<open>title\<close> being the product's.
\<close>

record pageContent =
  description :: jstring
  breadcrumbs :: jstring
  page_title :: jstring
  htmlLength :: nat

section \<open>The world outside the handler\<close>

text \<open>
  Every awaited call is answered by the world: it resolves (\<open>Inr\<close>, or \<open>None\<close>
  for a call whose value is not used) or rejects with a thrown value. A call the
  handler can make twice is answered by its position among the calls of its kind.
  The options of the calls (\<open>headless\<close>, the 30000 ms of \<open>page.goto\<close>,
  \<open>networkidle\<close>) are constants of the source: a navigation that exceeds its time
  is a \<open>goto\<close> that rejects. \<open>stringify\<close> is \<open>JSON.stringify\<close> on the product
  array; the three messages are those of the \<open>TypeError\<close> the engine raises when
  the body cannot be destructured, when \<open>document.documentElement\<close> is \<open>null\<close>
  and when a value cannot be converted to a string.
\<close>

record world =
  request_json :: "thrown + jsval"
  launch :: "thrown option"
  newContext :: "thrown option"
  newPage :: "thrown option"
  goto :: "jstring \<Rightarrow> thrown option"
  waitForLoadState :: "thrown option"
  evaluate :: "nat \<Rightarrow> thrown + document"
  content :: "thrown + jstring"
  close :: "nat \<Rightarrow> thrown option"
  newClient :: "nat \<Rightarrow> thrown option"
  llm_model :: "nat \<Rightarrow> jstring \<Rightarrow> thrown option"
  respond :: "nat \<Rightarrow> jstring \<Rightarrow> thrown + jstring"
  stringify :: "product list \<Rightarrow> jstring"
  destructure_TypeError :: jstring
  outerHTML_TypeError :: jstring
  toPrimitive_TypeError :: jstring

text \<open>
  The calls and the console output of a run, in order: what a request did. \<open>EvLog\<close>
  is \<open>console.log\<close>, \<open>EvError\<close> is \<open>console.error\<close> with its label and the
  value logged.
\<close>

datatype event =
    EvRequestJson
  | EvLog jstring
  | EvError jstring thrown
  | EvLaunch
  | EvNewContext
  | EvNewPage
  | EvGoto jstring
  | EvWaitForLoadState
  | EvEvaluate
  | EvContent
  | EvClose
  | EvNewClient
  | EvModel jstring
  | EvRespond jstring

fun is_respond :: "event \<Rightarrow> bool" where
  "is_respond (EvRespond prompt) = True"
| "is_respond _ = False"

fun is_model :: "event \<Rightarrow> bool" where
  "is_model (EvModel name) = True"
| "is_model _ = False"

text \<open>
  A computation takes the events so far and gives its result, a value or a thrown
  value, with the events extended: \<open>io_bind\<close> is sequencing, where a thrown value
  skips the rest, and \<open>io_try m h\<close> is \<open>try { m } catch (e) { h e }\<close>.
\<close>

type_synonym 'a io = "event list \<Rightarrow> (thrown + 'a) \<times> event list"

definition io_return :: "'a \<Rightarrow> 'a io" where
  "io_return x t = (Inr x, t)"

definition io_bind :: "'a io \<Rightarrow> ('a \<Rightarrow> 'b io) \<Rightarrow> 'b io" where
  "io_bind m f t = (case m t of (Inl e, t') \<Rightarrow> (Inl e, t') | (Inr x, t') \<Rightarrow> f x t')"

definition io_try :: "'a io \<Rightarrow> (thrown \<Rightarrow> 'a io) \<Rightarrow> 'a io" where
  "io_try m h t = (case m t of (Inl e, t') \<Rightarrow> h e t' | (Inr x, t') \<Rightarrow> (Inr x, t'))"

definition outcome :: "thrown option \<Rightarrow> thrown + unit" where
  "outcome r = (case r of None \<Rightarrow> Inr () | Some e \<Rightarrow> Inl e)"

text \<open>The value of a conversion, or the \<open>TypeError\<close> it throws.\<close>

definition or_TypeError :: "world \<Rightarrow> jstring option \<Rightarrow> jstring io" where
  "or_TypeError w r t =
     ((case r of None \<Rightarrow> Inl (ErrorObj (toPrimitive_TypeError w)) | Some s \<Rightarrow> Inr s), t)"

definition console_log :: "jstring \<Rightarrow> unit io" where
  "console_log msg t = (Inr (), t @ [EvLog msg])"

definition console_error :: "jstring \<Rightarrow> thrown \<Rightarrow> unit io" where
  "console_error label e t = (Inr (), t @ [EvError label e])"

definition await_request_json :: "world \<Rightarrow> jsval io" where
  "await_request_json w t = (request_json w, t @ [EvRequestJson])"

definition chromium_launch :: "world \<Rightarrow> unit io" where
  "chromium_launch w t = (outcome (launch w), t @ [EvLaunch])"

definition browser_newContext :: "world \<Rightarrow> unit io" where
  "browser_newContext w t = (outcome (newContext w), t @ [EvNewContext])"

definition context_newPage :: "world \<Rightarrow> unit io" where
  "context_newPage w t = (outcome (newPage w), t @ [EvNewPage])"

definition page_goto :: "world \<Rightarrow> jstring \<Rightarrow> unit io" where
  "page_goto w url t = (outcome (goto w url), t @ [EvGoto url])"

definition page_waitForLoadState :: "world \<Rightarrow> unit io" where
  "page_waitForLoadState w t = (outcome (waitForLoadState w), t @ [EvWaitForLoadState])"

definition page_evaluate :: "world \<Rightarrow> (document \<Rightarrow> thrown + 'a) \<Rightarrow> 'a io" where
  "page_evaluate w f t =
     ((case evaluate w (count_list t EvEvaluate) of
         Inl e \<Rightarrow> Inl e
       | Inr doc \<Rightarrow> f doc),
      t @ [EvEvaluate])"

definition page_content :: "world \<Rightarrow> jstring io" where
  "page_content w t = (content w, t @ [EvContent])"

definition browser_close :: "world \<Rightarrow> unit io" where
  "browser_close w t = (outcome (close w (count_list t EvClose)), t @ [EvClose])"

definition new_LMStudioClient :: "world \<Rightarrow> unit io" where
  "new_LMStudioClient w t =
     (outcome (newClient w (count_list t EvNewClient)), t @ [EvNewClient])"

definition client_llm_model :: "world \<Rightarrow> jstring \<Rightarrow> unit io" where
  "client_llm_model w name t =
     (outcome (llm_model w (length (filter is_model t)) name), t @ [EvModel name])"

definition llmModel_respond :: "world \<Rightarrow> jstring \<Rightarrow> jstring io" where
  "llmModel_respond w prompt t =
     (respond w (length (filter is_respond t)) prompt, t @ [EvRespond prompt])"

section \<open>The request handler\<close>

text \<open>
  The template literal that builds the catalog URL. The variable \<open>make\<close> of the
  source is written \<open>make'\<close>.
\<close>

definition url_of :: "jsval \<Rightarrow> jsval \<Rightarrow> jsval \<Rightarrow> jstring option" where
  "url_of year make' model =
     do {
       y \<leftarrow> ToString year;
       m \<leftarrow> ToString make';
       mo \<leftarrow> ToString model;
       Some (js ''https://www.pro-x.com/product-category/engine/pistons-piston-components/piston-kits/yr-''
             @ y @ js ''/mk-'' @ m @ js ''/ml-'' @ mo @ js ''/'')
     }"

text \<open>
  \<open>const { year, make, model } = body\<close>: destructuring \<open>null\<close> raises a
  \<open>TypeError\<close> (\<open>query_of\<close> gives \<open>None\<close>); a property that is not there is
  \<open>undefined\<close>, and no primitive or array that \<open>JSON.parse\<close> gives has one of
  the three.
\<close>

definition property :: "(jstring \<times> jsval) list \<Rightarrow> jstring \<Rightarrow> jsval" where
  "property kvs k = (case map_of kvs k of None \<Rightarrow> JUndefined | Some v \<Rightarrow> v)"

definition query_of :: "jsval \<Rightarrow> (jsval \<times> jsval \<times> jsval) option" where
  "query_of request_body =
     (case request_body of
        JNull \<Rightarrow> None
      | JUndefined \<Rightarrow> None
      | JObj kvs \<Rightarrow>
          Some (property kvs (js ''year''), property kvs (js ''make''),
                property kvs (js ''model''))
      | _ \<Rightarrow> Some (JUndefined, JUndefined, JUndefined))"

definition destructure :: "world \<Rightarrow> jsval \<Rightarrow> (jsval \<times> jsval \<times> jsval) io" where
  "destructure w request_body t =
     ((case query_of request_body of
         None \<Rightarrow> Inl (ErrorObj (destructure_TypeError w))
       | Some q \<Rightarrow> Inr q),
      t)"

definition basePrompt :: "jsval \<Rightarrow> jsval \<Rightarrow> jsval \<Rightarrow> jstring option" where
  "basePrompt year make' model =
     do {
       m \<leftarrow> ToString make';
       mo \<leftarrow> ToString model;
       y \<leftarrow> ToString year;
       Some (js ''Genera una descripci'' @ [0xF3] @ js ''n detallada en espa'' @ [0xF1]
         @ js ''ol para pistones Pro-X para una motocicleta ''
         @ m @ js '' '' @ mo
         @ js '' del a'' @ [0xF1] @ js ''o '' @ y
         @ js ''.\<newline>\<newline>La descripci'' @ [0xF3]
         @ js ''n debe incluir:\<newline>1. Caracter'' @ [0xED]
         @ js ''sticas principales de los pistones Pro-X\<newline>2. Compatibilidad con el modelo espec''
         @ [0xED]
         @ js ''fico\<newline>3. Ventajas de usar pistones Pro-X\<newline>4. Recomendaciones de instalaci''
         @ [0xF3] @ js ''n generales'')
     }"

definition enhancedPrompt ::
  "world \<Rightarrow> jsval \<Rightarrow> jsval \<Rightarrow> jsval \<Rightarrow> product list \<Rightarrow>
   jstring option \<Rightarrow> jstring option \<Rightarrow> bool \<Rightarrow> jstring option" where
  "enhancedPrompt w year make' model productInfo pc_description pc_title isFallback =
     do {
       base \<leftarrow> basePrompt year make' model;
       Some (if isFallback then
           base
           @ js ''\<newline>\<newline>Nota: Esta es una descripci'' @ [0xF3] @ js ''n gen'' @ [0xE9]
           @ js ''rica ya que no se pudo obtener informaci'' @ [0xF3] @ js ''n espec'' @ [0xED]
           @ js ''fica del producto.''
         else
           base
           @ js ''\<newline>\<newline>Informaci'' @ [0xF3] @ js ''n de la p'' @ [0xE1] @ js ''gina: ''
           @ or_default (or_js pc_description pc_title) (js ''No disponible'')
           @ js ''\<newline>\<newline>Productos encontrados: '' @ stringify w productInfo)
     }"

text \<open>
  \<open>generateDescription\<close>; the two optional fields of its \<open>pageContent\<close>
  argument are passed one by one.
\<close>

definition generateDescription ::
  "world \<Rightarrow> jsval \<Rightarrow> jsval \<Rightarrow> jsval \<Rightarrow> product list \<Rightarrow>
   jstring option \<Rightarrow> jstring option \<Rightarrow> bool \<Rightarrow> jstring io" where
  "generateDescription w year make' model productInfo pc_description pc_title isFallback =
     io_bind
       (or_TypeError w
          (enhancedPrompt w year make' model productInfo pc_description pc_title isFallback))
       (\<lambda>prompt.
     io_bind
       (console_log
          (if isFallback then js ''Generando descripci'' @ [0xF3] @ js ''n fallback...''
           else js ''Generando descripci'' @ [0xF3] @ js ''n con LM Studio...''))
       (\<lambda>_. llmModel_respond w prompt))"

text \<open>The function of the second \<open>page.evaluate\<close>.\<close>

definition pageContent_fn :: "world \<Rightarrow> document \<Rightarrow> thrown + pageContent" where
  "pageContent_fn w doc =
     (let description' = text_of (doc_querySelector doc (js ''.term-description''));
          breadcrumbs' = text_of (doc_querySelector doc (js ''.woocommerce-breadcrumb''));
          title' = text_of (doc_querySelector doc (js ''h1.page-title''))
      in case documentElement_outerHTML doc of
           None \<Rightarrow> Inl (ErrorObj (outerHTML_TypeError w))
         | Some rawHtml \<Rightarrow>
             Inr \<lparr> description = description', breadcrumbs = breadcrumbs',
                   page_title = title', htmlLength = length rawHtml \<rparr>)"

text \<open>
  The three objects given to \<open>NextResponse.json\<close>:
  \<open>{description, products, pageInfo, url, htmlPreview}\<close>,
  \<open>{description, scrapingError: true, errorDetails, url}\<close> and \<open>{error, details}\<close>.
\<close>

datatype body =
    Success jstring "product list" pageContent jstring jstring
  | Degraded jstring jstring jstring
  | Failure jstring jstring

record response =
  status :: nat
  body :: body

definition model_name :: jstring where
  "model_name = js ''oh-dcft-v3.1-claude-3-5-sonnet-20241022''"

text \<open>The inner \<open>try\<close> block.\<close>

definition scrape_try ::
  "world \<Rightarrow> jsval \<Rightarrow> jsval \<Rightarrow> jsval \<Rightarrow> jstring \<Rightarrow> response io" where
  "scrape_try w year make' model url =
     io_bind (page_goto w url) (\<lambda>_.
     io_bind (console_log (js ''P'' @ [0xE1] @ js ''gina cargada correctamente'')) (\<lambda>_.
     io_bind (page_waitForLoadState w) (\<lambda>_.
     io_bind (page_evaluate w (\<lambda>doc. Inr (productInfo_fn doc))) (\<lambda>productInfo.
     io_bind (page_evaluate w (pageContent_fn w)) (\<lambda>pageContent.
     io_bind (page_content w) (\<lambda>htmlContent.
     let htmlPreview = take 500 htmlContent @ js ''...'' in
     io_bind (console_log
                (js ''Productos encontrados: '' @ nat_text (length productInfo))) (\<lambda>_.
     io_bind (console_log
                (js ''Informaci'' @ [0xF3] @ js ''n de p'' @ [0xE1] @ js ''gina obtenida: ''
                 @ js ''description, breadcrumbs, title, htmlLength'')) (\<lambda>_.
     io_bind (browser_close w) (\<lambda>_.
     io_bind (new_LMStudioClient w) (\<lambda>_.
     io_bind (client_llm_model w model_name) (\<lambda>_.
     io_bind (generateDescription w year make' model productInfo
                (Some (description pageContent)) (Some (page_title pageContent)) False)
       (\<lambda>description'.
     io_return \<lparr> status = 200,
                 body = Success description' productInfo pageContent url htmlPreview \<rparr>
     ))))))))))))"

text \<open>The \<open>catch (scrapingError)\<close> block.\<close>

definition scrape_catch ::
  "world \<Rightarrow> jsval \<Rightarrow> jsval \<Rightarrow> jsval \<Rightarrow> jstring \<Rightarrow> thrown \<Rightarrow> response io" where
  "scrape_catch w year make' model url scrapingError =
     io_bind (console_error (js ''Error durante el scraping:'') scrapingError) (\<lambda>_.
     io_bind (browser_close w) (\<lambda>_.
     io_bind (new_LMStudioClient w) (\<lambda>_.
     io_bind (client_llm_model w model_name) (\<lambda>_.
     io_bind (generateDescription w year make' model [] None None True) (\<lambda>description'.
     io_bind (or_TypeError w (error_text scrapingError)) (\<lambda>errorDetails.
     io_return \<lparr> status = 200, body = Degraded description' errorDetails url \<rparr>
     ))))))"

text \<open>
  The handler, with its outer \<open>try\<close> and \<open>catch (error)\<close>. A value thrown in
  the outer \<open>catch\<close> is the rejection of the handler (\<open>Inl\<close>).
\<close>

definition POST :: "world \<Rightarrow> response io" where
  "POST w =
     io_try
       (io_bind (await_request_json w) (\<lambda>request_body.
        io_bind (destructure w request_body) (\<lambda>(year, make', model).
        io_bind (or_TypeError w (url_of year make' model)) (\<lambda>url.
        io_bind (console_log (js ''Iniciando scraping de: '' @ url)) (\<lambda>_.
        io_bind (chromium_launch w) (\<lambda>_.
        io_bind (browser_newContext w) (\<lambda>_.
        io_bind (context_newPage w) (\<lambda>_.
        io_try (scrape_try w year make' model url)
               (scrape_catch w year make' model url)))))))))
       (\<lambda>error.
        io_bind (console_error (js ''Error general:'') error) (\<lambda>_.
        io_bind (or_TypeError w (error_text error)) (\<lambda>details.
        io_return \<lparr> status = 500,
                    body = Failure (js ''Error al realizar el scraping'') details \<rparr>)))"

section \<open>Example requests\<close>

text \<open>
  The query the form starts with, an empty catalog page, and a world in which every
  call succeeds; the other worlds differ from it in one call.
\<close>

definition query_body :: jsval where
  "query_body =
     JObj [(js ''year'', JStr (js ''2022'')), (js ''make'', JStr (js ''honda'')),
           (js ''model'', JStr (js ''crf-250-r''))]"

definition query_url :: jstring where
  "query_url =
     js ''https://www.pro-x.com/product-category/engine/pistons-piston-components/piston-kits/yr-2022/mk-honda/ml-crf-250-r/''"

definition empty_document :: document where
  "empty_document =
     \<lparr> doc_querySelectorAll = (\<lambda>_. []), doc_querySelector = (\<lambda>_. None),
       documentElement_outerHTML = Some (js ''<html><head></head><body></body></html>'') \<rparr>"

definition fair_world :: world where
  "fair_world =
     \<lparr> request_json = Inr query_body, launch = None, newContext = None, newPage = None,
       goto = (\<lambda>_. None), waitForLoadState = None,
       evaluate = (\<lambda>_. Inr empty_document),
       content = Inr (js ''<!DOCTYPE html><html><head></head><body></body></html>''),
       close = (\<lambda>_. None), newClient = (\<lambda>_. None), llm_model = (\<lambda>_ _. None),
       respond = (\<lambda>_ _. Inr (js ''Pistones Pro-X para Honda CRF 250 R.'')),
       stringify = (\<lambda>_. js ''[]''),
       destructure_TypeError = js ''Cannot destructure property year of null'',
       outerHTML_TypeError = js ''Cannot read properties of null (reading outerHTML)'',
       toPrimitive_TypeError = js ''Cannot convert object to primitive value'' \<rparr>"

definition timeout_error :: thrown where
  "timeout_error = ErrorObj (js ''page.goto: Timeout 30000ms exceeded.'')"

definition timeout_world :: world where
  "timeout_world = fair_world \<lparr> goto := (\<lambda>_. Some timeout_error) \<rparr>"

definition refused :: thrown where
  "refused = ErrorObj (js ''connect ECONNREFUSED 127.0.0.1:1234'')"

text \<open>Product cards: the second has no price element.\<close>

definition text_element :: "jstring \<Rightarrow> element" where
  "text_element s = Element (\<lambda>_. None) (Some s) (\<lambda>_. None)"

definition img_element :: "jstring \<Rightarrow> element" where
  "img_element src =
     Element (\<lambda>_. None) (Some []) (\<lambda>a. if a = js ''src'' then Some src else None)"

definition card_A :: element where
  "card_A =
     Element
       (\<lambda>sel. if sel = js ''.woocommerce-loop-product__title''
               then Some (text_element (js '' Piston Kit A ''))
             else if sel = js ''.price'' then Some (text_element (js ''$189.95''))
             else if sel = js ''img'' then Some (img_element (js ''/img/a.jpg''))
             else None)
       (Some (js '' Piston Kit A $189.95'')) (\<lambda>_. None)"

definition card_B :: element where
  "card_B =
     Element
       (\<lambda>sel. if sel = js ''.woocommerce-loop-product__title''
               then Some (text_element (js ''Piston Kit B''))
             else if sel = js ''img'' then Some (img_element (js ''/img/b.jpg''))
             else None)
       (Some (js ''Piston Kit B'')) (\<lambda>_. None)"

definition catalog_document :: document where
  "catalog_document =
     \<lparr> doc_querySelectorAll = (\<lambda>sel. if sel = primary_selector then [card_A, card_B] else []),
       doc_querySelector = (\<lambda>_. None),
       documentElement_outerHTML = Some (js ''<html><head></head><body></body></html>'') \<rparr>"

text \<open>A list item of \<open>ul.products\<close> that does not carry the class \<open>product\<close>.\<close>

definition list_item :: element where
  "list_item =
     Element
       (\<lambda>sel. if sel = js ''h2, .woocommerce-loop-product__title''
               then Some (text_element (js ''Piston Kit C''))
             else if sel = js ''.price, .amount'' then Some (text_element (js ''$99.00''))
             else None)
       (Some (js ''Piston Kit C $99.00'')) (\<lambda>_. None)"

definition list_document :: document where
  "list_document =
     \<lparr> doc_querySelectorAll = (\<lambda>sel. if sel = alternative_selector then [list_item] else []),
       doc_querySelector = (\<lambda>_. None),
       documentElement_outerHTML = Some (js ''<html><head></head><body></body></html>'') \<rparr>"

text \<open>
  Two list items of \<open>ul.products\<close>: one with a heading, an amount and an image, one
  with a heading only.
\<close>

definition shelf_item :: element where
  "shelf_item =
     Element
       (\<lambda>sel. if sel = js ''h2, .woocommerce-loop-product__title''
               then Some (text_element (js ''  Piston Kit D''))
             else if sel = js ''.price, .amount'' then Some (text_element (js ''$120.00 ''))
             else if sel = js ''img'' then Some (img_element (js ''/img/d.jpg''))
             else None)
       (Some (js ''  Piston Kit D $120.00 '')) (\<lambda>_. None)"

definition bare_item :: element where
  "bare_item =
     Element
       (\<lambda>sel. if sel = js ''h2, .woocommerce-loop-product__title''
               then Some (text_element (js ''Piston Kit E''))
             else None)
       (Some (js ''Piston Kit E'')) (\<lambda>_. None)"

definition shelf_document :: document where
  "shelf_document =
     \<lparr> doc_querySelectorAll =
         (\<lambda>sel. if sel = alternative_selector then [shelf_item, bare_item] else []),
       doc_querySelector = (\<lambda>_. None),
       documentElement_outerHTML = Some (js ''<html><head></head><body></body></html>'') \<rparr>"




text \<open>
  The backend answers with empty text; the backend refuses every \<open>respond\<close>; the
  backend refuses the first \<open>respond\<close> and answers the second.
\<close>

definition hiccup_world :: world where
  "hiccup_world =
     fair_world \<lparr> respond :=
       (\<lambda>i _. if i = 0 then Inl refused
               else Inr (js ''Pistones Pro-X para Honda CRF 250 R.'')) \<rparr>"

definition silent_timeout_world :: world where
  "silent_timeout_world = timeout_world \<lparr> respond := (\<lambda>_ _. Inr []) \<rparr>"


definition down_timeout_world :: world where
  "down_timeout_world = timeout_world \<lparr> respond := (\<lambda>_ _. Inl refused) \<rparr>"

text \<open>
  The browser cannot be closed; the navigation rejects with an object that has an own
  \<open>toString\<close> key, which \<open>String\<close> cannot convert.
\<close>

definition close_error :: thrown where
  "close_error = ErrorObj (js ''browser.close: Connection closed'')"


definition stuck_timeout_world :: world where
  "stuck_timeout_world = timeout_world \<lparr> close := (\<lambda>_. Some close_error) \<rparr>"

definition textless_error :: thrown where
  "textless_error = NonError (JObj [(js ''toString'', JNull)])"

definition textless_world :: world where
  "textless_world = fair_world \<lparr> goto := (\<lambda>_. Some textless_error) \<rparr>"

text \<open>
  The model lookup is refused once and then succeeds; the page cannot be opened in
  the launched browser.
\<close>

definition flaky_world :: world where
  "flaky_world = fair_world \<lparr> llm_model := (\<lambda>i _. if i = 0 then Some refused else None) \<rparr>"

definition crash_error :: thrown where
  "crash_error = ErrorObj (js ''browserContext.newPage: Target closed'')"

definition crash_world :: world where
  "crash_world = fair_world \<lparr> newPage := Some crash_error \<rparr>"

text \<open>Request bodies: an empty year, no field at all, no JSON, and \<open>null\<close>.\<close>

definition blank_year_world :: world where
  "blank_year_world =
     fair_world \<lparr> request_json :=
       Inr (JObj [(js ''year'', JStr []), (js ''make'', JStr (js ''honda'')),
                  (js ''model'', JStr (js ''crf-250-r''))]) \<rparr>"





text \<open>A page whose markup is longer than the preview.\<close>

definition long_page_world :: world where
  "long_page_world =
     fair_world \<lparr> content := Inr (js ''<html>'' @ replicate 600 0x20 @ js ''</html>'') \<rparr>"

section \<open>Reasoning about runs\<close>

text \<open>
  \<open>preserves I m\<close>: the computation keeps the property \<open>I\<close> of the events.
  \<open>gotos_to url t\<close>: every navigation among the events \<open>t\<close> went to \<open>url\<close>.
  \<open>append_stable url I\<close>: \<open>I\<close> survives every new event that is not a navigation to
  another address.
\<close>

definition preserves :: "(event list \<Rightarrow> bool) \<Rightarrow> 'a io \<Rightarrow> bool" where
  "preserves I m \<longleftrightarrow> (\<forall>t. I t \<longrightarrow> I (snd (m t)))"

definition gotos_to :: "jstring \<Rightarrow> event list \<Rightarrow> bool" where
  "gotos_to url t \<longleftrightarrow> (\<forall>u. EvGoto u \<in> set t \<longrightarrow> u = url)"

definition append_stable :: "jstring \<Rightarrow> (event list \<Rightarrow> bool) \<Rightarrow> bool" where
  "append_stable url I \<longleftrightarrow>
     (\<forall>t ev. I t \<longrightarrow> (\<forall>u. ev = EvGoto u \<longrightarrow> u = url) \<longrightarrow> I (t @ [ev]))"

lemmas io_defs = io_return_def io_bind_def io_try_def outcome_def console_log_def
  console_error_def await_request_json_def chromium_launch_def browser_newContext_def
  context_newPage_def page_goto_def page_waitForLoadState_def page_evaluate_def
  page_content_def browser_close_def new_LMStudioClient_def client_llm_model_def
  llmModel_respond_def destructure_def generateDescription_def or_TypeError_def

lemmas run_defs = POST_def scrape_try_def scrape_catch_def io_defs Let_def

section \<open>Runs of the handler\<close>

lemma preserves_return: "preserves I (io_return x)"
  by (simp add: preserves_def io_return_def)

lemma preserves_or_TypeError: "preserves I (or_TypeError w r)"
  by (simp add: preserves_def or_TypeError_def)

lemma preserves_bind:
  assumes "preserves I m" and "\<And>x. preserves I (f x)"
  shows "preserves I (io_bind m f)"
  using assms unfolding preserves_def io_bind_def
  by (auto split: prod.splits sum.splits)

lemma preserves_try:
  assumes "preserves I m" and "\<And>e. preserves I (h e)"
  shows "preserves I (io_try m h)"
  using assms unfolding preserves_def io_try_def
  by (auto split: prod.splits sum.splits)

lemma preserves_prims:
  assumes "append_stable url I"
  shows "preserves I (console_log msg)"
    and "preserves I (console_error label e)"
    and "preserves I (await_request_json w)"
    and "preserves I (chromium_launch w)"
    and "preserves I (browser_newContext w)"
    and "preserves I (context_newPage w)"
    and "preserves I (page_goto w url)"
    and "preserves I (page_waitForLoadState w)"
    and "preserves I (page_evaluate w f)"
    and "preserves I (page_content w)"
    and "preserves I (browser_close w)"
    and "preserves I (new_LMStudioClient w)"
    and "preserves I (client_llm_model w name)"
    and "preserves I (llmModel_respond w prompt)"
  using assms
  by (simp_all add: append_stable_def preserves_def console_log_def console_error_def
      await_request_json_def chromium_launch_def browser_newContext_def
      context_newPage_def page_goto_def page_waitForLoadState_def page_evaluate_def
      page_content_def browser_close_def new_LMStudioClient_def client_llm_model_def
      llmModel_respond_def)

lemma preserves_generateDescription:
  assumes "append_stable url I"
  shows "preserves I (generateDescription w y m mo ps d ti fb)"
  unfolding generateDescription_def
  by (intro preserves_bind preserves_or_TypeError preserves_prims [OF assms])

lemma preserves_scrape_try:
  assumes "append_stable url I"
  shows "preserves I (scrape_try w y m mo url)"
  unfolding scrape_try_def Let_def
  by (intro preserves_bind preserves_return preserves_prims [OF assms]
      preserves_generateDescription [OF assms])

lemma preserves_scrape_catch:
  assumes "append_stable url I"
  shows "preserves I (scrape_catch w y m mo url e)"
  unfolding scrape_catch_def
  by (intro preserves_bind preserves_return preserves_or_TypeError
      preserves_prims [OF assms] preserves_generateDescription [OF assms])

text \<open>The run up to the launch of the browser, when the address can be built.\<close>

lemma POST_unfold:
  assumes "request_json w = Inr b" and "query_of b = Some (year, make', model)"
    and "url_of year make' model = Some url"
  shows "POST w [] =
     io_try
       (io_bind (chromium_launch w) (\<lambda>_.
        io_bind (browser_newContext w) (\<lambda>_.
        io_bind (context_newPage w) (\<lambda>_.
        io_try (scrape_try w year make' model url)
               (scrape_catch w year make' model url)))))
       (\<lambda>error.
        io_bind (console_error (js ''Error general:'') error) (\<lambda>_.
        io_bind (or_TypeError w (error_text error)) (\<lambda>details.
        io_return \<lparr> status = 500,
                    body = Failure (js ''Error al realizar el scraping'') details \<rparr>)))
       [EvRequestJson, EvLog (js ''Iniciando scraping de: '' @ url)]"
  using assms
  by (simp add: POST_def io_try_def io_bind_def [of "await_request_json w"]
      io_bind_def [of "destructure w b"] io_bind_def [of "console_log msg" for msg]
      io_bind_def [of "or_TypeError w (Some url)"]
      await_request_json_def destructure_def console_log_def or_TypeError_def)

text \<open>When a field cannot be converted, the run ends before any launch.\<close>

lemma POST_no_url:
  assumes "request_json w = Inr b" and "query_of b = Some (year, make', model)"
    and "url_of year make' model = None"
  shows "POST w [] =
     (Inr \<lparr> status = 500,
            body = Failure (js ''Error al realizar el scraping'') (toPrimitive_TypeError w) \<rparr>,
      [EvRequestJson, EvError (js ''Error general:'') (ErrorObj (toPrimitive_TypeError w))])"
  using assms by (simp add: run_defs)

text \<open>
  Once the body is read and the address built, a property that holds of the first two
  events and is stable holds of the whole run.
\<close>

lemma POST_preserves:
  assumes "request_json w = Inr b" and "query_of b = Some (year, make', model)"
    and "url_of year make' model = Some url"
    and "append_stable url I"
    and "I [EvRequestJson, EvLog (js ''Iniciando scraping de: '' @ url)]"
  shows "I (snd (POST w []))"
proof -
  have "preserves I
     (io_try
       (io_bind (chromium_launch w) (\<lambda>_.
        io_bind (browser_newContext w) (\<lambda>_.
        io_bind (context_newPage w) (\<lambda>_.
        io_try (scrape_try w year make' model url)
               (scrape_catch w year make' model url)))))
       (\<lambda>error.
        io_bind (console_error (js ''Error general:'') error) (\<lambda>_.
        io_bind (or_TypeError w (error_text error)) (\<lambda>details.
        io_return \<lparr> status = 500,
                    body = Failure (js ''Error al realizar el scraping'') details \<rparr>))))"
    by (intro preserves_try preserves_bind preserves_return preserves_or_TypeError
        preserves_prims [OF assms(4)] preserves_scrape_try [OF assms(4)]
        preserves_scrape_catch [OF assms(4)])
  with assms(5) show ?thesis
    unfolding POST_unfold [OF assms(1,2,3)] preserves_def by blast
qed

lemma stable_gotos_to: "append_stable url (gotos_to url)"
  by (auto simp: append_stable_def gotos_to_def)

lemma POST_gotos:
  assumes "request_json w = Inr b" and "query_of b = Some (year, make', model)"
    and "EvGoto u \<in> set (snd (POST w []))"
  shows "url_of year make' model = Some u"
proof (cases "url_of year make' model")
  case None
  from assms(3) show ?thesis
    unfolding POST_no_url [OF assms(1,2) None] by simp
next
  case (Some url)
  have "gotos_to url (snd (POST w []))"
    by (rule POST_preserves [OF assms(1,2) Some stable_gotos_to]) (simp add: gotos_to_def)
  with assms(3) Some show ?thesis by (simp add: gotos_to_def)
qed

lemma io_bind_InrE:
  assumes "io_bind m f t = (Inr y, t')"
  obtains x t1 where "m t = (Inr x, t1)" and "f x t1 = (Inr y, t')"
  using assms unfolding io_bind_def by (auto split: prod.splits sum.splits)

lemma io_try_InrE:
  assumes "io_try m h t = (Inr y, t')"
  obtains "m t = (Inr y, t')" | e t1 where "m t = (Inl e, t1)" and "h e t1 = (Inr y, t')"
  using assms unfolding io_try_def by (auto split: prod.splits sum.splits)

lemma io_return_eq: "io_return x t = (r, t') \<longleftrightarrow> r = Inr x \<and> t' = t"
  by (auto simp: io_return_def)

lemma or_TypeError_eq: "or_TypeError w r t = (Inr s, t') \<longleftrightarrow> r = Some s \<and> t' = t"
  by (auto simp: or_TypeError_def split: option.splits)

lemma page_content_eq:
  "page_content w t = (Inr html, t') \<longleftrightarrow> content w = Inr html \<and> t' = t @ [EvContent]"
  by (auto simp: page_content_def)

lemma scrape_try_Inr:
  assumes "scrape_try w year make' model url t = (Inr resp, t')"
  shows "\<exists>d ps pc html. content w = Inr html \<and>
           resp = \<lparr> status = 200, body = Success d ps pc url (take 500 html @ js ''...'') \<rparr>"
  using assms unfolding scrape_try_def Let_def
  by (elim io_bind_InrE) (auto simp: io_return_eq page_content_eq)

lemma scrape_catch_Inr:
  assumes "scrape_catch w year make' model url e t = (Inr resp, t')"
  shows "\<exists>d details. error_text e = Some details \<and>
           resp = \<lparr> status = 200, body = Degraded d details url \<rparr>"
  using assms unfolding scrape_catch_def
  by (elim io_bind_InrE) (auto simp: io_return_eq or_TypeError_eq)

lemma io_try_cases:
  assumes "io_try m h t = (r, t')"
  obtains y where "r = Inr y" and "m t = (Inr y, t')"
  | e t1 where "m t = (Inl e, t1)" and "h e t1 = (r, t')"
  using assms unfolding io_try_def by (auto split: prod.splits sum.splits)

lemma await_request_json_eq:
  "await_request_json w t = (Inr b, t') \<longleftrightarrow> request_json w = Inr b \<and> t' = t @ [EvRequestJson]"
  by (auto simp: await_request_json_def)

lemma destructure_eq:
  "destructure w b t = (Inr q, t') \<longleftrightarrow> query_of b = Some q \<and> t' = t"
  by (auto simp: destructure_def split: option.splits)

text \<open>
  Where a response comes from: the end of the inner \<open>try\<close> block, the end of its
  \<open>catch\<close> block, or the outer \<open>catch\<close>.
\<close>

lemma POST_cases:
  assumes "POST w t = (r, t')"
  obtains b year make' model url t0 resp
    where "r = Inr resp" and "request_json w = Inr b"
      and "query_of b = Some (year, make', model)"
      and "url_of year make' model = Some url"
      and "scrape_try w year make' model url t0 = (Inr resp, t')"
  | b year make' model url e t0 resp
    where "r = Inr resp" and "request_json w = Inr b"
      and "query_of b = Some (year, make', model)"
      and "url_of year make' model = Some url"
      and "scrape_catch w year make' model url e t0 = (Inr resp, t')"
  | "\<And>resp. r = Inr resp \<Longrightarrow>
       \<exists>details. resp = \<lparr> status = 500,
                          body = Failure (js ''Error al realizar el scraping'') details \<rparr>"
  using assms unfolding POST_def case_prod_beta
proof (cases rule: io_try_cases)
  case (1 y)
  from 1(2) show ?thesis
    by (elim io_bind_InrE io_try_InrE)
      (use 1(1) that(1,2) in
        \<open>auto simp: await_request_json_eq destructure_eq or_TypeError_eq\<close>)
next
  case (2 e t1)
  then have "\<And>resp. r = Inr resp \<Longrightarrow>
       \<exists>details. resp = \<lparr> status = 500,
                          body = Failure (js ''Error al realizar el scraping'') details \<rparr>"
    by (auto simp: io_bind_def console_error_def io_return_def or_TypeError_def
        split: option.splits)
  then show ?thesis by (rule that(3))
qed

lemma url_of_text:
  "url_of (JStr year) (JStr make') (JStr model) =
     Some (js ''https://www.pro-x.com/product-category/engine/pistons-piston-components/piston-kits/yr-''
           @ year @ js ''/mk-'' @ make' @ js ''/ml-'' @ model @ js ''/'')"
  by (simp add: url_of_def)

lemma query_url_eq:
  "url_of (JStr (js ''2022'')) (JStr (js ''honda'')) (JStr (js ''crf-250-r'')) = Some query_url"
  by (simp add: url_of_def query_url_def js_def)

lemma query_of_query_body:
  "query_of query_body = Some (JStr (js ''2022''), JStr (js ''honda''), JStr (js ''crf-250-r''))"
  by (simp add: query_of_def query_body_def property_def js_def)

text \<open>The prompts of the example query exist: its three fields are texts.\<close>

lemma query_prompt:
  "\<exists>prompt. enhancedPrompt w (JStr (js ''2022'')) (JStr (js ''honda''))
              (JStr (js ''crf-250-r'')) ps d ti fb = Some prompt"
  by (simp add: enhancedPrompt_def basePrompt_def)

lemma append_stable_extends: "append_stable url (\<lambda>t. \<exists>rest. t = t0 @ rest)"
  by (auto simp: append_stable_def)

lemma io_bind_establishes:
  assumes "I (snd (m t))" and "\<And>x. preserves I (f x)"
  shows "I (snd (io_bind m f t))"
  using assms unfolding preserves_def io_bind_def
  by (auto split: prod.splits sum.splits)

lemma io_try_establishes:
  assumes "I (snd (m t))" and "\<And>e. preserves I (h e)"
  shows "I (snd (io_try m h t))"
  using assms unfolding preserves_def io_try_def
  by (auto split: prod.splits sum.splits)

lemma POST_launches:
  assumes "request_json w = Inr b" and "query_of b = Some (year, make', model)"
    and "url_of year make' model = Some url"
  shows "\<exists>rest. snd (POST w []) =
           [EvRequestJson, EvLog (js ''Iniciando scraping de: '' @ url), EvLaunch] @ rest"
proof -
  let ?I = "\<lambda>t. \<exists>rest. t = [EvRequestJson, EvLog (js ''Iniciando scraping de: '' @ url),
                               EvLaunch] @ rest"
  have st: "append_stable url ?I"
    by (rule append_stable_extends)
  show ?thesis
    unfolding POST_unfold [OF assms]
    by (intro io_try_establishes [where I = ?I] io_bind_establishes [where I = ?I]
        preserves_try preserves_bind preserves_return preserves_or_TypeError
        preserves_prims [OF st] preserves_scrape_try [OF st] preserves_scrape_catch [OF st])
      (simp add: chromium_launch_def)
qed

section \<open>The product extractor\<close>

lemma selectors_distinct: "primary_selector \<noteq> alternative_selector"
  by (simp add: primary_selector_def alternative_selector_def js_def)

text \<open>
  Claim C4. The product function tries its selector tiers in order and the first
  non-empty result wins: when the primary selector matches nothing and the alternative
  selector matches something, the result is exactly the alternative-tier extraction of
  the alternative matches; when the primary selector matches something, the result is
  the primary-tier extraction of the primary matches and the alternative selector is
  never passed to \<open>document.querySelectorAll\<close>.
\<close>

theorem selector_tiers_strict_order:
  "(doc_querySelectorAll doc primary_selector = []
      \<and> doc_querySelectorAll doc alternative_selector \<noteq> [] \<longrightarrow>
      productInfo_fn doc = map alternative_record (doc_querySelectorAll doc alternative_selector)
      \<and> queried doc = [primary_selector, alternative_selector])
   \<and> (doc_querySelectorAll doc primary_selector \<noteq> [] \<longrightarrow>
      productInfo_fn doc = map product_record (doc_querySelectorAll doc primary_selector)
      \<and> queried doc = [primary_selector]
      \<and> alternative_selector \<notin> set (queried doc))"
  using selectors_distinct
  by (auto simp: productInfo_fn_def queried_def productInfo_run_def Let_def)

theorem selector_tiers_strict_order_witness:
  "doc_querySelectorAll list_document primary_selector = []
   \<and> doc_querySelectorAll list_document alternative_selector \<noteq> []
   \<and> productInfo_fn list_document
       = [\<lparr> title = js ''Piston Kit C'', price = js ''$99.00'', imageUrl = [] \<rparr>]
   \<and> doc_querySelectorAll catalog_document primary_selector \<noteq> []
   \<and> productInfo_fn catalog_document
       = [\<lparr> title = js ''Piston Kit A'', price = js ''$189.95'', imageUrl = js ''/img/a.jpg'' \<rparr>,
          \<lparr> title = js ''Piston Kit B'', price = [], imageUrl = js ''/img/b.jpg'' \<rparr>]
   \<and> queried catalog_document = [primary_selector]"
  using selector_tiers_strict_order [of list_document]
        selector_tiers_strict_order [of catalog_document] selectors_distinct
  by (simp add: list_document_def catalog_document_def list_item_def card_A_def card_B_def
      alternative_record_def product_record_def text_of_def src_of_def or_default_def
      text_element_def img_element_def trim_def is_space_def js_def)

text \<open>
  Claim C8. Each of the three fields of a record is read on its own, from its own
  sub-selector and from nothing else: it is the trimmed text (for the image, the
  \<open>src\<close> attribute) of the sub-element when there is one, and the empty string when
  the sub-selector matches nothing in the element, in either tier. No matched element
  is dropped: the result has one record per matched element, in document order, also
  for an element without a price.
\<close>

theorem subfields_default_to_empty:
  "title (product_record el) =
     (case querySelector el (js ''.woocommerce-loop-product__title'') of
        None \<Rightarrow> []
      | Some sub \<Rightarrow> (case textContent sub of None \<Rightarrow> [] | Some s \<Rightarrow> trim s))
   \<and> price (product_record el) =
     (case querySelector el (js ''.price'') of
        None \<Rightarrow> []
      | Some sub \<Rightarrow> (case textContent sub of None \<Rightarrow> [] | Some s \<Rightarrow> trim s))
   \<and> imageUrl (product_record el) =
     (case querySelector el (js ''img'') of
        None \<Rightarrow> []
      | Some sub \<Rightarrow> (case getAttribute sub (js ''src'') of None \<Rightarrow> [] | Some s \<Rightarrow> s))
   \<and> title (alternative_record el) =
     (case querySelector el (js ''h2, .woocommerce-loop-product__title'') of
        None \<Rightarrow> []
      | Some sub \<Rightarrow> (case textContent sub of None \<Rightarrow> [] | Some s \<Rightarrow> trim s))
   \<and> price (alternative_record el) =
     (case querySelector el (js ''.price, .amount'') of
        None \<Rightarrow> []
      | Some sub \<Rightarrow> (case textContent sub of None \<Rightarrow> [] | Some s \<Rightarrow> trim s))
   \<and> imageUrl (alternative_record el) =
     (case querySelector el (js ''img'') of
        None \<Rightarrow> []
      | Some sub \<Rightarrow> (case getAttribute sub (js ''src'') of None \<Rightarrow> [] | Some s \<Rightarrow> s))
   \<and> (querySelector el (js ''.woocommerce-loop-product__title'') = None \<longrightarrow>
      title (product_record el) = [])
   \<and> (querySelector el (js ''.price'') = None \<longrightarrow> price (product_record el) = [])
   \<and> (querySelector el (js ''img'') = None \<longrightarrow> imageUrl (product_record el) = [])
   \<and> (querySelector el (js ''h2, .woocommerce-loop-product__title'') = None \<longrightarrow>
      title (alternative_record el) = [])
   \<and> (querySelector el (js ''.price, .amount'') = None \<longrightarrow>
      price (alternative_record el) = [])
   \<and> (querySelector el (js ''img'') = None \<longrightarrow> imageUrl (alternative_record el) = [])
   \<and> (doc_querySelectorAll doc primary_selector \<noteq> [] \<longrightarrow>
      length (productInfo_fn doc) = length (doc_querySelectorAll doc primary_selector)
      \<and> (\<forall>i < length (doc_querySelectorAll doc primary_selector).
            productInfo_fn doc ! i = product_record (doc_querySelectorAll doc primary_selector ! i)))
   \<and> (doc_querySelectorAll doc primary_selector = [] \<longrightarrow>
      length (productInfo_fn doc) = length (doc_querySelectorAll doc alternative_selector)
      \<and> (\<forall>i < length (doc_querySelectorAll doc alternative_selector).
            productInfo_fn doc ! i
            = alternative_record (doc_querySelectorAll doc alternative_selector ! i)))"
proof -
  have fields:
    "title (product_record el) =
       (case querySelector el (js ''.woocommerce-loop-product__title'') of
          None \<Rightarrow> []
        | Some sub \<Rightarrow> (case textContent sub of None \<Rightarrow> [] | Some s \<Rightarrow> trim s))"
    "price (product_record el) =
       (case querySelector el (js ''.price'') of
          None \<Rightarrow> []
        | Some sub \<Rightarrow> (case textContent sub of None \<Rightarrow> [] | Some s \<Rightarrow> trim s))"
    "imageUrl (product_record el) =
       (case querySelector el (js ''img'') of
          None \<Rightarrow> []
        | Some sub \<Rightarrow> (case getAttribute sub (js ''src'') of None \<Rightarrow> [] | Some s \<Rightarrow> s))"
    "title (alternative_record el) =
       (case querySelector el (js ''h2, .woocommerce-loop-product__title'') of
          None \<Rightarrow> []
        | Some sub \<Rightarrow> (case textContent sub of None \<Rightarrow> [] | Some s \<Rightarrow> trim s))"
    "price (alternative_record el) =
       (case querySelector el (js ''.price, .amount'') of
          None \<Rightarrow> []
        | Some sub \<Rightarrow> (case textContent sub of None \<Rightarrow> [] | Some s \<Rightarrow> trim s))"
    "imageUrl (alternative_record el) =
       (case querySelector el (js ''img'') of
          None \<Rightarrow> []
        | Some sub \<Rightarrow> (case getAttribute sub (js ''src'') of None \<Rightarrow> [] | Some s \<Rightarrow> s))"
    by (simp_all add: product_record_def alternative_record_def text_of_def src_of_def
        or_default_def split: option.splits)
  have primary:
    "doc_querySelectorAll doc primary_selector \<noteq> [] \<longrightarrow>
      length (productInfo_fn doc) = length (doc_querySelectorAll doc primary_selector)
      \<and> (\<forall>i < length (doc_querySelectorAll doc primary_selector).
            productInfo_fn doc ! i = product_record (doc_querySelectorAll doc primary_selector ! i))"
    by (simp add: productInfo_fn_def productInfo_run_def Let_def)
  have alternative:
    "doc_querySelectorAll doc primary_selector = [] \<longrightarrow>
      length (productInfo_fn doc) = length (doc_querySelectorAll doc alternative_selector)
      \<and> (\<forall>i < length (doc_querySelectorAll doc alternative_selector).
            productInfo_fn doc ! i
            = alternative_record (doc_querySelectorAll doc alternative_selector ! i))"
    by (simp add: productInfo_fn_def productInfo_run_def Let_def)
  show ?thesis
    unfolding fields using primary alternative by simp
qed

theorem subfields_default_to_empty_witness:
  "querySelector card_B (js ''.price'') = None
   \<and> product_record card_A =
       \<lparr> title = js ''Piston Kit A'', price = js ''$189.95'', imageUrl = js ''/img/a.jpg'' \<rparr>
   \<and> product_record card_B =
       \<lparr> title = js ''Piston Kit B'', price = [], imageUrl = js ''/img/b.jpg'' \<rparr>
   \<and> alternative_record shelf_item =
       \<lparr> title = js ''Piston Kit D'', price = js ''$120.00'', imageUrl = js ''/img/d.jpg'' \<rparr>
   \<and> querySelector bare_item (js ''.price, .amount'') = None
   \<and> querySelector bare_item (js ''img'') = None
   \<and> alternative_record bare_item =
       \<lparr> title = js ''Piston Kit E'', price = [], imageUrl = [] \<rparr>
   \<and> querySelector (text_element []) (js ''.woocommerce-loop-product__title'') = None
   \<and> querySelector (text_element []) (js ''h2, .woocommerce-loop-product__title'') = None
   \<and> querySelector (text_element []) (js ''.price'') = None
   \<and> querySelector (text_element []) (js ''img'') = None
   \<and> product_record (text_element []) = \<lparr> title = [], price = [], imageUrl = [] \<rparr>
   \<and> alternative_record (text_element []) = \<lparr> title = [], price = [], imageUrl = [] \<rparr>
   \<and> doc_querySelectorAll catalog_document primary_selector \<noteq> []
   \<and> productInfo_fn catalog_document =
       [\<lparr> title = js ''Piston Kit A'', price = js ''$189.95'', imageUrl = js ''/img/a.jpg'' \<rparr>,
        \<lparr> title = js ''Piston Kit B'', price = [], imageUrl = js ''/img/b.jpg'' \<rparr>]
   \<and> doc_querySelectorAll shelf_document primary_selector = []
   \<and> productInfo_fn shelf_document =
       [\<lparr> title = js ''Piston Kit D'', price = js ''$120.00'', imageUrl = js ''/img/d.jpg'' \<rparr>,
        \<lparr> title = js ''Piston Kit E'', price = [], imageUrl = [] \<rparr>]"
proof -
  have els:
    "querySelector card_A (js ''.woocommerce-loop-product__title'')
       = Some (text_element (js '' Piston Kit A ''))"
    "querySelector card_A (js ''.price'') = Some (text_element (js ''$189.95''))"
    "querySelector card_A (js ''img'') = Some (img_element (js ''/img/a.jpg''))"
    "querySelector card_B (js ''.woocommerce-loop-product__title'')
       = Some (text_element (js ''Piston Kit B''))"
    "querySelector card_B (js ''.price'') = None"
    "querySelector card_B (js ''img'') = Some (img_element (js ''/img/b.jpg''))"
    "querySelector shelf_item (js ''h2, .woocommerce-loop-product__title'')
       = Some (text_element (js ''  Piston Kit D''))"
    "querySelector shelf_item (js ''.price, .amount'') = Some (text_element (js ''$120.00 ''))"
    "querySelector shelf_item (js ''img'') = Some (img_element (js ''/img/d.jpg''))"
    "querySelector bare_item (js ''h2, .woocommerce-loop-product__title'')
       = Some (text_element (js ''Piston Kit E''))"
    "querySelector bare_item (js ''.price, .amount'') = None"
    "querySelector bare_item (js ''img'') = None"
    by (simp_all add: card_A_def card_B_def shelf_item_def bare_item_def js_def)
  have trims:
    "trim (js '' Piston Kit A '') = js ''Piston Kit A''"
    "trim (js ''$189.95'') = js ''$189.95''"
    "trim (js ''Piston Kit B'') = js ''Piston Kit B''"
    "trim (js ''  Piston Kit D'') = js ''Piston Kit D''"
    "trim (js ''$120.00 '') = js ''$120.00''"
    "trim (js ''Piston Kit E'') = js ''Piston Kit E''"
    by (simp_all add: trim_def is_space_def js_def)
  have docs:
    "doc_querySelectorAll catalog_document primary_selector = [card_A, card_B]"
    "doc_querySelectorAll shelf_document primary_selector = []"
    "doc_querySelectorAll shelf_document alternative_selector = [shelf_item, bare_item]"
    using selectors_distinct by (simp_all add: catalog_document_def shelf_document_def)
  have recs:
    "product_record card_A =
       \<lparr> title = js ''Piston Kit A'', price = js ''$189.95'', imageUrl = js ''/img/a.jpg'' \<rparr>"
    "product_record card_B =
       \<lparr> title = js ''Piston Kit B'', price = [], imageUrl = js ''/img/b.jpg'' \<rparr>"
    "alternative_record shelf_item =
       \<lparr> title = js ''Piston Kit D'', price = js ''$120.00'', imageUrl = js ''/img/d.jpg'' \<rparr>"
    "alternative_record bare_item =
       \<lparr> title = js ''Piston Kit E'', price = [], imageUrl = [] \<rparr>"
    using subfields_default_to_empty [of card_A catalog_document]
      subfields_default_to_empty [of card_B catalog_document]
      subfields_default_to_empty [of shelf_item shelf_document]
      subfields_default_to_empty [of bare_item shelf_document]
    by (simp_all add: els trims text_element_def img_element_def)
  have lists:
    "productInfo_fn catalog_document = [product_record card_A, product_record card_B]"
    "productInfo_fn shelf_document = [alternative_record shelf_item, alternative_record bare_item]"
    by (simp_all add: productInfo_fn_def productInfo_run_def docs)
  from subfields_default_to_empty [of "text_element []" catalog_document]
  have empties:
    "product_record (text_element []) = \<lparr> title = [], price = [], imageUrl = [] \<rparr>"
    "alternative_record (text_element []) = \<lparr> title = [], price = [], imageUrl = [] \<rparr>"
    by (simp_all add: text_element_def)
  show ?thesis
    by (simp add: els recs lists docs empties) (simp add: text_element_def)
qed

section \<open>The catalog address\<close>

text \<open>
  Claim C9. The catalog address is a function of the three fields of the query and of
  nothing else: for text fields it is the fixed prefix followed by the year, the make
  and the model, verbatim, each in its own path segment; and in every run of the
  handler the address of each navigation and the address reported in the response
  (success or degraded) are this function of the fields of the request body.
\<close>

theorem url_builder_deterministic:
  "url_of (JStr year) (JStr make') (JStr model) =
     Some (js ''https://www.pro-x.com/product-category/engine/pistons-piston-components/piston-kits/yr-''
           @ year @ js ''/mk-'' @ make' @ js ''/ml-'' @ model @ js ''/'')
   \<and> (request_json w = Inr request_body \<and> query_of request_body = Some (y, m, mo) \<longrightarrow>
        (\<forall>u. EvGoto u \<in> set (snd (POST w [])) \<longrightarrow> url_of y m mo = Some u)
      \<and> (\<forall>resp d ps pc u h.
            fst (POST w []) = Inr resp \<and> body resp = Success d ps pc u h \<longrightarrow>
            url_of y m mo = Some u)
      \<and> (\<forall>resp d e u.
            fst (POST w []) = Inr resp \<and> body resp = Degraded d e u \<longrightarrow>
            url_of y m mo = Some u))"
proof (intro conjI impI allI; (elim conjE)?)
  show "url_of (JStr year) (JStr make') (JStr model) =
     Some (js ''https://www.pro-x.com/product-category/engine/pistons-piston-components/piston-kits/yr-''
           @ year @ js ''/mk-'' @ make' @ js ''/ml-'' @ model @ js ''/'')"
    by (rule url_of_text)
next
  fix u
  assume "request_json w = Inr request_body" "query_of request_body = Some (y, m, mo)"
    "EvGoto u \<in> set (snd (POST w []))"
  then show "url_of y m mo = Some u" by (rule POST_gotos)
next
  fix resp d ps pc u h
  assume q: "request_json w = Inr request_body" "query_of request_body = Some (y, m, mo)"
    and r: "fst (POST w []) = Inr resp" "body resp = Success d ps pc u h"
  obtain t' where run: "POST w [] = (Inr resp, t')"
    using r(1) by (cases "POST w []") simp
  from run show "url_of y m mo = Some u"
  proof (cases rule: POST_cases)
    case (1 b year make' model url t0 resp')
    with scrape_try_Inr [OF 1(5)] q r(2) show ?thesis by auto
  next
    case (2 b year make' model url e t0 resp')
    with scrape_catch_Inr [OF 2(5)] r(2) show ?thesis by auto
  next
    case 3
    from 3 [of resp] r(2) show ?thesis by auto
  qed
next
  fix resp d e u
  assume q: "request_json w = Inr request_body" "query_of request_body = Some (y, m, mo)"
    and r: "fst (POST w []) = Inr resp" "body resp = Degraded d e u"
  obtain t' where run: "POST w [] = (Inr resp, t')"
    using r(1) by (cases "POST w []") simp
  from run show "url_of y m mo = Some u"
  proof (cases rule: POST_cases)
    case (1 b year make' model url t0 resp')
    with scrape_try_Inr [OF 1(5)] r(2) show ?thesis by auto
  next
    case (2 b year make' model url e' t0 resp')
    with scrape_catch_Inr [OF 2(5)] q r(2) show ?thesis by auto
  next
    case 3
    from 3 [of resp] r(2) show ?thesis by auto
  qed
qed

theorem url_builder_deterministic_witness:
  "url_of (JStr (js ''2022'')) (JStr (js ''honda'')) (JStr (js ''crf-250-r'')) = Some query_url
   \<and> request_json timeout_world = Inr query_body
   \<and> request_json fair_world = Inr query_body
   \<and> query_of query_body
       = Some (JStr (js ''2022''), JStr (js ''honda''), JStr (js ''crf-250-r''))
   \<and> EvGoto query_url \<in> set (snd (POST timeout_world []))
   \<and> fst (POST timeout_world []) =
       Inr \<lparr> status = 200,
             body = Degraded (js ''Pistones Pro-X para Honda CRF 250 R.'')
                      (js ''page.goto: Timeout 30000ms exceeded.'') query_url \<rparr>
   \<and> fst (POST fair_world []) =
       Inr \<lparr> status = 200,
             body = Success (js ''Pistones Pro-X para Honda CRF 250 R.'') []
               \<lparr> description = [], breadcrumbs = [], page_title = [], htmlLength = 39 \<rparr>
               query_url
               (js ''<!DOCTYPE html><html><head></head><body></body></html>...'') \<rparr>"
proof -
  have r: "request_json timeout_world = Inr query_body"
    and r': "request_json fair_world = Inr query_body"
    by (simp_all add: timeout_world_def fair_world_def)
  obtain prompt where p:
    "enhancedPrompt timeout_world (JStr (js ''2022'')) (JStr (js ''honda''))
       (JStr (js ''crf-250-r'')) [] None None True = Some prompt"
    using query_prompt by blast
  have run: "POST timeout_world [] =
     (Inr \<lparr> status = 200,
            body = Degraded (js ''Pistones Pro-X para Honda CRF 250 R.'')
                     (js ''page.goto: Timeout 30000ms exceeded.'') query_url \<rparr>,
      [EvRequestJson, EvLog (js ''Iniciando scraping de: '' @ query_url), EvLaunch,
       EvNewContext, EvNewPage, EvGoto query_url,
       EvError (js ''Error durante el scraping:'') timeout_error, EvClose, EvNewClient,
       EvModel model_name,
       EvLog (js ''Generando descripci'' @ [0xF3] @ js ''n fallback...''),
       EvRespond prompt])"
    using query_of_query_body query_url_eq p
    by (simp add: run_defs timeout_world_def fair_world_def timeout_error_def)
  obtain prompt' where p':
    "enhancedPrompt fair_world (JStr (js ''2022'')) (JStr (js ''honda''))
       (JStr (js ''crf-250-r'')) [] (Some []) (Some []) False = Some prompt'"
    using query_prompt by blast
  have run': "fst (POST fair_world []) =
       Inr \<lparr> status = 200,
             body = Success (js ''Pistones Pro-X para Honda CRF 250 R.'') []
               \<lparr> description = [], breadcrumbs = [], page_title = [], htmlLength = 39 \<rparr>
               query_url
               (js ''<!DOCTYPE html><html><head></head><body></body></html>...'') \<rparr>"
    using query_of_query_body query_url_eq p'
    by (simp add: run_defs fair_world_def empty_document_def productInfo_fn_def
        productInfo_run_def pageContent_fn_def text_of_def or_default_def js_def)
  from url_builder_deterministic
         [where w = timeout_world and request_body = query_body
            and y = "JStr (js ''2022'')" and m = "JStr (js ''honda'')"
            and mo = "JStr (js ''crf-250-r'')" and year = "js ''2022''"
            and make' = "js ''honda''" and model = "js ''crf-250-r''"]
       url_builder_deterministic
         [where w = fair_world and request_body = query_body
            and y = "JStr (js ''2022'')" and m = "JStr (js ''honda'')"
            and mo = "JStr (js ''crf-250-r'')" and year = "js ''2022''"
            and make' = "js ''honda''" and model = "js ''crf-250-r''"]
       r r' query_of_query_body query_url_eq run run'
  show ?thesis by simp
qed

text \<open>
  Claim C6, as amended. The handler does not validate the year, the make and the model
  at all, not even for being non-empty: for every three texts it logs the address with
  the three texts interpolated verbatim and then launches the browser, and every
  navigation of the run goes to that address.
\<close>

theorem query_not_validated:
  assumes "request_json w = Inr request_body"
    and "query_of request_body = Some (JStr year, JStr make', JStr model)"
  shows "(\<exists>rest. snd (POST w []) =
           [EvRequestJson,
            EvLog (js ''Iniciando scraping de: ''
                   @ js ''https://www.pro-x.com/product-category/engine/pistons-piston-components/piston-kits/yr-''
                   @ year @ js ''/mk-'' @ make' @ js ''/ml-'' @ model @ js ''/''),
            EvLaunch] @ rest)
    \<and> (\<forall>u. EvGoto u \<in> set (snd (POST w [])) \<longrightarrow>
           u = js ''https://www.pro-x.com/product-category/engine/pistons-piston-components/piston-kits/yr-''
               @ year @ js ''/mk-'' @ make' @ js ''/ml-'' @ model @ js ''/'')"
  using POST_launches [OF assms url_of_text] POST_gotos [OF assms]
  by (simp add: url_of_text)

theorem query_not_validated_witness:
  "request_json blank_year_world =
     Inr (JObj [(js ''year'', JStr []), (js ''make'', JStr (js ''honda'')),
                (js ''model'', JStr (js ''crf-250-r''))])
   \<and> query_of (JObj [(js ''year'', JStr []), (js ''make'', JStr (js ''honda'')),
                (js ''model'', JStr (js ''crf-250-r''))])
       = Some (JStr [], JStr (js ''honda''), JStr (js ''crf-250-r''))
   \<and> (\<exists>rest. snd (POST blank_year_world []) =
           [EvRequestJson,
            EvLog (js ''Iniciando scraping de: https://www.pro-x.com/product-category/engine/pistons-piston-components/piston-kits/yr-/mk-honda/ml-crf-250-r/''),
            EvLaunch] @ rest)"
proof -
  have q: "query_of (JObj [(js ''year'', JStr []), (js ''make'', JStr (js ''honda'')),
                (js ''model'', JStr (js ''crf-250-r''))])
       = Some (JStr [], JStr (js ''honda''), JStr (js ''crf-250-r''))"
    by (simp add: query_of_def property_def js_def)
  have r: "request_json blank_year_world =
     Inr (JObj [(js ''year'', JStr []), (js ''make'', JStr (js ''honda'')),
                (js ''model'', JStr (js ''crf-250-r''))])"
    by (simp add: blank_year_world_def fair_world_def)
  from query_not_validated [OF r q] q r show ?thesis
    by (simp add: js_def)
qed

text \<open>
  Claim C6 as stated fails: a request whose year is the empty text is not rejected;
  the browser is launched and the page is navigated to the address with an empty
  year segment.
\<close>

theorem blank_year_counterexample:
  "request_json blank_year_world =
     Inr (JObj [(js ''year'', JStr []), (js ''make'', JStr (js ''honda'')),
                (js ''model'', JStr (js ''crf-250-r''))])
   \<and> take 6 (snd (POST blank_year_world [])) =
       [EvRequestJson,
        EvLog (js ''Iniciando scraping de: https://www.pro-x.com/product-category/engine/pistons-piston-components/piston-kits/yr-/mk-honda/ml-crf-250-r/''),
        EvLaunch, EvNewContext, EvNewPage,
        EvGoto (js ''https://www.pro-x.com/product-category/engine/pistons-piston-components/piston-kits/yr-/mk-honda/ml-crf-250-r/'')]
   \<and> map_sum id status (fst (POST blank_year_world [])) = Inr 200"
  by (simp add: run_defs blank_year_world_def fair_world_def empty_document_def
      query_of_def property_def url_of_def enhancedPrompt_def basePrompt_def
      productInfo_fn_def productInfo_run_def pageContent_fn_def js_def)

section \<open>Request bodies that cannot be read\<close>




section \<open>The success path\<close>




text \<open>
  Claim C10. Every response of the success shape carries an \<open>htmlPreview\<close> that is
  the first 500 code units of the text \<open>page.content()\<close> resolved to, followed by
  three dots.
\<close>

theorem html_preview_of_success:
  assumes "fst (POST w []) = Inr resp" and "body resp = Success d ps pc u h"
  shows "\<exists>htmlContent. content w = Inr htmlContent \<and> h = take 500 htmlContent @ js ''...''"
proof -
  obtain t' where run: "POST w [] = (Inr resp, t')"
    using assms(1) by (cases "POST w []") simp
  from run show ?thesis
  proof (cases rule: POST_cases)
    case (1 b year make' model url t0 resp')
    with scrape_try_Inr [OF 1(5)] assms(2) show ?thesis by auto
  next
    case (2 b year make' model url e t0 resp')
    with scrape_catch_Inr [OF 2(5)] assms(2) show ?thesis by auto
  next
    case 3
    from 3 [of resp] assms(2) show ?thesis by auto
  qed
qed

theorem html_preview_of_success_witness:
  "fst (POST long_page_world []) =
     Inr \<lparr> status = 200,
           body = Success (js ''Pistones Pro-X para Honda CRF 250 R.'') []
             \<lparr> description = [], breadcrumbs = [], page_title = [], htmlLength = 39 \<rparr>
             query_url (js ''<html>'' @ replicate 494 0x20 @ js ''...'') \<rparr>
   \<and> (\<exists>htmlContent. content long_page_world = Inr htmlContent
        \<and> js ''<html>'' @ replicate 494 0x20 @ js ''...'' = take 500 htmlContent @ js ''...'')"
proof -
  have run: "fst (POST long_page_world []) =
     Inr \<lparr> status = 200,
           body = Success (js ''Pistones Pro-X para Honda CRF 250 R.'') []
             \<lparr> description = [], breadcrumbs = [], page_title = [], htmlLength = 39 \<rparr>
             query_url (js ''<html>'' @ replicate 494 0x20 @ js ''...'') \<rparr>"
    using query_of_query_body query_url_eq
    by (simp add: run_defs enhancedPrompt_def basePrompt_def long_page_world_def fair_world_def empty_document_def
        productInfo_fn_def productInfo_run_def pageContent_fn_def text_of_def or_default_def
        js_def)
  from html_preview_of_success [OF run] run show ?thesis by simp
qed

section \<open>The fallback path\<close>

text \<open>
  Claim C2, as amended. When the navigation or the wait for network idle rejects with
  an error that has a text, and the browser release and the fallback synthesis then
  succeed, the response has status 200 and the degraded object:
  \<open>scrapingError: true\<close>, neither products nor page information, the description
  the backend answered to the fallback prompt (whatever text that is),
  \<open>errorDetails\<close> the text of the render error and \<open>url\<close> the address built from
  the query. The backend is asked once, with the fallback prompt, and the browser is
  closed once.
\<close>

theorem render_failure_degrades:
  assumes "request_json w = Inr request_body"
    and "query_of request_body = Some (year, make', model)"
    and "url_of year make' model = Some url"
    and "launch w = None" and "newContext w = None" and "newPage w = None"
    and "goto w url = Some e \<or> (goto w url = None \<and> waitForLoadState w = Some e)"
    and "error_text e = Some details"
    and "close w 0 = None" and "newClient w 0 = None" and "llm_model w 0 model_name = None"
    and "enhancedPrompt w year make' model [] None None True = Some prompt"
    and "respond w 0 prompt = Inr answer"
  shows "fst (POST w []) =
           Inr \<lparr> status = 200, body = Degraded answer details url \<rparr>
         \<and> filter is_respond (snd (POST w [])) = [EvRespond prompt]
         \<and> count_list (snd (POST w [])) EvClose = 1"
  using assms
  by (auto simp: run_defs)

theorem render_failure_degrades_witness:
  "goto timeout_world query_url = Some timeout_error
   \<and> error_text timeout_error = Some (js ''page.goto: Timeout 30000ms exceeded.'')
   \<and> fst (POST timeout_world []) =
       Inr \<lparr> status = 200,
             body = Degraded (js ''Pistones Pro-X para Honda CRF 250 R.'')
                      (js ''page.goto: Timeout 30000ms exceeded.'') query_url \<rparr>
   \<and> count_list (snd (POST timeout_world [])) EvClose = 1"
proof -
  obtain prompt where p:
    "enhancedPrompt timeout_world (JStr (js ''2022'')) (JStr (js ''honda''))
       (JStr (js ''crf-250-r'')) [] None None True = Some prompt"
    using query_prompt by blast
  have w:
    "request_json timeout_world = Inr query_body" "launch timeout_world = None"
    "newContext timeout_world = None" "newPage timeout_world = None"
    "goto timeout_world query_url = Some timeout_error
     \<or> (goto timeout_world query_url = None
        \<and> waitForLoadState timeout_world = Some timeout_error)"
    "error_text timeout_error = Some (js ''page.goto: Timeout 30000ms exceeded.'')"
    "close timeout_world 0 = None" "newClient timeout_world 0 = None"
    "llm_model timeout_world 0 model_name = None"
    "respond timeout_world 0 prompt = Inr (js ''Pistones Pro-X para Honda CRF 250 R.'')"
    by (simp_all add: timeout_world_def fair_world_def timeout_error_def)
  from render_failure_degrades
    [OF w(1) query_of_query_body query_url_eq w(2,3,4,5,6,7,8,9) p w(10)] w(6)
  show ?thesis
    by (simp add: timeout_world_def fair_world_def)
qed

text \<open>
  Claim C2 as stated fails. After a navigation timeout: a backend that answers with
  the empty text gives a degraded result whose description is empty; a backend that
  rejects gives the hard failure with status 500; a browser that cannot be closed
  gives the hard failure too; and so does a navigation that rejects with a value that
  \<open>String\<close> cannot convert.
\<close>

theorem render_failure_counterexample:
  "fst (POST silent_timeout_world []) =
     Inr \<lparr> status = 200,
           body = Degraded [] (js ''page.goto: Timeout 30000ms exceeded.'') query_url \<rparr>
   \<and> fst (POST down_timeout_world []) =
     Inr \<lparr> status = 500,
           body = Failure (js ''Error al realizar el scraping'')
                    (js ''connect ECONNREFUSED 127.0.0.1:1234'') \<rparr>
   \<and> fst (POST stuck_timeout_world []) =
     Inr \<lparr> status = 500,
           body = Failure (js ''Error al realizar el scraping'')
                    (js ''browser.close: Connection closed'') \<rparr>
   \<and> fst (POST textless_world []) =
     Inr \<lparr> status = 500,
           body = Failure (js ''Error al realizar el scraping'')
                    (js ''Cannot convert object to primitive value'') \<rparr>"
  using query_of_query_body query_url_eq
  by (simp add: run_defs enhancedPrompt_def basePrompt_def silent_timeout_world_def
      down_timeout_world_def stuck_timeout_world_def textless_world_def timeout_world_def
      fair_world_def timeout_error_def refused_def close_error_def textless_error_def)

section \<open>Failures of the description synthesis\<close>

text \<open>
  Claim C1. A synthesis failure after a successful render and extraction is not
  terminal in the code. When the first \<open>respond\<close> rejects, the inner \<open>catch\<close>,
  written for scraping failures, takes the rejection: it logs it as a scraping error,
  attempts the fallback synthesis, and the request ends with status 200 and the
  degraded object, after two synthesis attempts.
\<close>

theorem synthesis_error_answers_degraded:
  "fst (POST hiccup_world []) =
       Inr \<lparr> status = 200,
             body = Degraded (js ''Pistones Pro-X para Honda CRF 250 R.'')
                      (js ''connect ECONNREFUSED 127.0.0.1:1234'') query_url \<rparr>
   \<and> EvError (js ''Error durante el scraping:'') refused \<in> set (snd (POST hiccup_world []))
   \<and> length (filter is_respond (snd (POST hiccup_world []))) = 2"
  using query_of_query_body query_url_eq
  by (simp add: run_defs enhancedPrompt_def basePrompt_def productInfo_fn_def productInfo_run_def
      pageContent_fn_def hiccup_world_def fair_world_def
      empty_document_def refused_def)

section \<open>Release of the browser\<close>

text \<open>
  Claim C3. The browser is not released exactly once on every exit path. When the
  model lookup rejects after the extraction, \<open>browser.close()\<close> has already run in
  the \<open>try\<close> block and runs again in the \<open>catch\<close> block (and the response is a
  degraded result); when \<open>context.newPage()\<close> rejects, the launched browser is never
  closed.
\<close>

theorem release_not_exactly_once:
  "count_list (snd (POST flaky_world [])) EvClose = 2
   \<and> fst (POST flaky_world []) =
       Inr \<lparr> status = 200,
             body = Degraded (js ''Pistones Pro-X para Honda CRF 250 R.'')
                      (js ''connect ECONNREFUSED 127.0.0.1:1234'') query_url \<rparr>
   \<and> count_list (snd (POST crash_world [])) EvLaunch = 1
   \<and> count_list (snd (POST crash_world [])) EvClose = 0
   \<and> fst (POST crash_world []) =
       Inr \<lparr> status = 500,
             body = Failure (js ''Error al realizar el scraping'')
                      (js ''browserContext.newPage: Target closed'') \<rparr>"
  using query_of_query_body query_url_eq
  by (simp add: run_defs enhancedPrompt_def basePrompt_def flaky_world_def crash_world_def crash_error_def fair_world_def
      empty_document_def refused_def productInfo_fn_def productInfo_run_def
      pageContent_fn_def)

end
